theory Spec2Isabelle
  imports Complex_Main
begin

section \<open>Gitscovery: the repository provider and the button of \<open>app.tsx\<close>\<close>

text \<open>
  The development embeds \<open>src/components/app/app.tsx\<close>: the helper \<open>getRecentDate\<close>, the
  effect \<open>fetchRepos\<close> of the component \<open>Button\<close>, its click handler \<open>handleClick\<close> and the
  \<open>disabled\<close> attribute of the rendered button.

  Conventions of the embedding.
  \<^item> JavaScript strings are \<open>string\<close> (bytes of the UTF-8 encoding).
  \<^item> The numbers the component computes with are integers (epoch milliseconds, star counts,
    issue counts); they are \<open>int\<close>, which agrees with IEEE doubles below \<open>2 ^ 53\<close>. \<open>NaN\<close> and
    \<open>undefined\<close> are \<open>None\<close>.
  \<^item> Everything the browser supplies (the clock, the time zone, the random draws, the answer
    of \<open>fetch\<close>, \<open>JSON.parse\<close> and \<open>JSON.stringify\<close>, whether \<open>window.open\<close> exists) is a
    field of the record \<open>host\<close>; the component's state, \<open>localStorage\<close> and the effects it
    leaves behind (requests, console lines, opened windows) are the record \<open>world\<close>.
  \<^item> An exception is a value of \<open>js_error\<close>; a function that can be left by one returns an
    optional error next to the world reached when it was raised.
\<close>

subsection \<open>Numbers and strings of the host language\<close>

text \<open>\<open>Number.prototype.toString\<close> and template interpolation, on integers.\<close>

fun digits :: "nat \<Rightarrow> string" where
  "digits n = (if n < 10 then [''0123456789'' ! n] else digits (n div 10) @ [''0123456789'' ! (n mod 10)])"

declare digits.simps [simp del]

definition toString :: "int \<Rightarrow> string" where
  "toString n = (if n < 0 then CHR ''-'' # digits (nat (- n)) else digits (nat n))"

text \<open>Interpolation of a number that may be \<open>undefined\<close> (or the \<open>NaN\<close> computed from it).\<close>

definition interpolate :: "string \<Rightarrow> int option \<Rightarrow> string" where
  "interpolate missing v = (case v of None \<Rightarrow> missing | Some n \<Rightarrow> toString n)"

text \<open>
  \<open>parseInt(s)\<close> with no radix (ECMAScript 19.2.5): leading white space is skipped, one sign is
  read, a prefix \<open>0x\<close> or \<open>0X\<close> selects radix 16, and the longest run of digits is the value;
  no digit at all is \<open>NaN\<close>.
\<close>

definition ws_prefixes :: "string list" where
  "ws_prefixes =
    [[CHR 0x09], [CHR 0x0A], [CHR 0x0B], [CHR 0x0C], [CHR 0x0D], [CHR 0x20],
     [CHR 0xC2, CHR 0xA0], [CHR 0xE1, CHR 0x9A, CHR 0x80],
     [CHR 0xE2, CHR 0x80, CHR 0x80], [CHR 0xE2, CHR 0x80, CHR 0x81],
     [CHR 0xE2, CHR 0x80, CHR 0x82], [CHR 0xE2, CHR 0x80, CHR 0x83],
     [CHR 0xE2, CHR 0x80, CHR 0x84], [CHR 0xE2, CHR 0x80, CHR 0x85],
     [CHR 0xE2, CHR 0x80, CHR 0x86], [CHR 0xE2, CHR 0x80, CHR 0x87],
     [CHR 0xE2, CHR 0x80, CHR 0x88], [CHR 0xE2, CHR 0x80, CHR 0x89],
     [CHR 0xE2, CHR 0x80, CHR 0x8A], [CHR 0xE2, CHR 0x80, CHR 0xA8],
     [CHR 0xE2, CHR 0x80, CHR 0xA9], [CHR 0xE2, CHR 0x80, CHR 0xAF],
     [CHR 0xE2, CHR 0x81, CHR 0x9F], [CHR 0xE3, CHR 0x80, CHR 0x80],
     [CHR 0xEF, CHR 0xBB, CHR 0xBF]]"

definition starts_with :: "string \<Rightarrow> string \<Rightarrow> bool" where
  "starts_with p s = (take (length p) s = p)"

fun trim_start :: "string \<Rightarrow> string" where
  "trim_start [] = []"
| "trim_start (c # s) =
     (case filter (\<lambda>p. starts_with p (c # s)) ws_prefixes of
        [] \<Rightarrow> c # s
      | p # _ \<Rightarrow> trim_start (drop (length p - 1) s))"

definition digit_of :: "char \<Rightarrow> nat option" where
  "digit_of c =
     (let n = (of_char c :: nat) in
      if 48 \<le> n \<and> n \<le> 57 then Some (n - 48)
      else if 97 \<le> n \<and> n \<le> 122 then Some (n - 87)
      else if 65 \<le> n \<and> n \<le> 90 then Some (n - 55)
      else None)"

definition is_digit :: "nat \<Rightarrow> char \<Rightarrow> bool" where
  "is_digit R c = (case digit_of c of None \<Rightarrow> False | Some d \<Rightarrow> d < R)"

fun digits_value :: "nat \<Rightarrow> nat \<Rightarrow> string \<Rightarrow> nat" where
  "digits_value R acc [] = acc"
| "digits_value R acc (c # s) =
     digits_value R (acc * R + (case digit_of c of None \<Rightarrow> 0 | Some d \<Rightarrow> d)) s"

definition parseInt :: "string \<Rightarrow> int option" where
  "parseInt inputString =
     (let S = trim_start inputString;
          sign = (if starts_with ''-'' S then - 1 else 1 :: int);
          S1 = (if S \<noteq> [] \<and> (hd S = CHR ''+'' \<or> hd S = CHR ''-'') then tl S else S);
          hex = (starts_with ''0x'' S1 \<or> starts_with ''0X'' S1);
          R = (if hex then 16 else 10 :: nat);
          S2 = (if hex then drop 2 S1 else S1);
          Z = takeWhile (is_digit R) S2
      in if Z = [] then None else Some (sign * int (digits_value R 0 Z)))"

subsection \<open>The browser: clock, time zone, randomness, network, JSON\<close>

datatype js_error = NetworkError | GitHubAPIError | SyntaxError | TypeError

record item =
  open_issues_count :: int
  html_url :: string

text \<open>
  What \<open>res.json()\<close> yields: a rejection when the body is not JSON, else the parsed object,
  of which the component reads the field \<open>items\<close> only (\<open>None\<close> when the object has no
  such array, so that \<open>json.items.filter\<close> raises a \<open>TypeError\<close>).
\<close>

datatype body = NotJson | Json "item list option"

record response =
  status :: nat
  payload :: body

text \<open>\<open>Response.ok\<close> of the Fetch standard: the status is in the range 200 to 299.\<close>

definition ok :: "response \<Rightarrow> bool" where
  "ok res = (200 \<le> status res \<and> status res \<le> 299)"

datatype fetch_result = Rejected | Resolved response

text \<open>
  One mount of the component sees one host: \<open>now_check\<close> is \<open>Date.now()\<close> of line 95,
  \<open>now_query\<close> the \<open>new Date()\<close> of \<open>getRecentDate\<close>, \<open>now_save\<close> the \<open>Date.now()\<close> of line 151;
  \<open>LocalTZA t isUTC\<close> is the offset of local time in milliseconds (ECMAScript 21.4.1.24);
  \<open>stars_draw\<close> is the position the random source draws for \<open>pick\<close> at line 108 and
  \<open>page_random\<close> the value of \<open>Math.random()\<close> at line 118; \<open>fetch_result\<close> is how the
  promise of \<open>fetch\<close> settles. \<open>JSON_parse\<close> is \<open>None\<close> where \<open>JSON.parse\<close> raises a
  \<open>SyntaxError\<close>; the state \<open>repos\<close> is declared \<open>Array<string>\<close>, so the parsed value is a
  list of strings. The clock returns time values, and \<open>localStorage\<close> is available and has
  room: \<open>toISOString\<close>, \<open>getItem\<close> and \<open>setItem\<close> do not raise.
\<close>

text \<open>
  \<open>Math.random()\<close> returns a double that is at least 0 and less than 1; the largest such
  double is \<open>1 - 1 / 2 ^ 53\<close>.
\<close>

typedef random_value = "{x :: real. 0 \<le> x \<and> x \<le> 1 - 1 / 2 ^ 53}"
  by (rule exI [of _ 0]) simp

record host =
  now_check :: int
  now_query :: int
  now_save :: int
  LocalTZA :: "int \<Rightarrow> bool \<Rightarrow> int"
  stars_draw :: nat
  page_random :: random_value
  fetch_result :: fetch_result
  JSON_parse :: "string \<Rightarrow> string list option"
  JSON_stringify :: "string list \<Rightarrow> string"
  window_open :: bool

datatype log = Warn string | Error js_error

record world =
  repos :: "string list"
  isLoading :: bool
  localStorage :: "string \<rightharpoonup> string"
  requests :: "string list"
  console :: "log list"
  opened :: "(string option \<times> string) list"

subsection \<open>Dates (ECMAScript 21.4.1)\<close>

definition msPerDay :: int where
  "msPerDay = 86400000"

definition Day :: "int \<Rightarrow> int" where
  "Day t = t div msPerDay"

definition TimeWithinDay :: "int \<Rightarrow> int" where
  "TimeWithinDay t = t mod msPerDay"

definition DayFromYear :: "int \<Rightarrow> int" where
  "DayFromYear y =
     365 * (y - 1970) + (y - 1969) div 4 - (y - 1901) div 100 + (y - 1601) div 400"

text \<open>
  The year of a day number is the largest \<open>y\<close> with \<open>DayFromYear y \<le> d\<close>; it is found
  next to the estimate by the mean length of a Gregorian year (lemma \<open>YearFromDay_spec\<close>).
\<close>

definition YearFromDay :: "int \<Rightarrow> int" where
  "YearFromDay d =
     (let y = 1970 + (d * 400) div 146097 in
      if DayFromYear (y + 1) \<le> d then y + 1
      else if DayFromYear y \<le> d then y
      else y - 1)"

definition YearFromTime :: "int \<Rightarrow> int" where
  "YearFromTime t = YearFromDay (Day t)"

definition leap :: "int \<Rightarrow> int" where
  "leap y = (if DayFromYear (y + 1) - DayFromYear y = 366 then 1 else 0)"

definition DayWithinYear :: "int \<Rightarrow> int" where
  "DayWithinYear t = Day t - DayFromYear (YearFromTime t)"

text \<open>The day within the year on which each month starts.\<close>

definition month_starts :: "int \<Rightarrow> int list" where
  "month_starts l =
     [0, 31, 59 + l, 90 + l, 120 + l, 151 + l, 181 + l, 212 + l, 243 + l, 273 + l,
      304 + l, 334 + l]"

definition MonthFromTime :: "int \<Rightarrow> int" where
  "MonthFromTime t =
     int (length (filter (\<lambda>s. s \<le> DayWithinYear t) (month_starts (leap (YearFromTime t))))) - 1"

definition DateFromTime :: "int \<Rightarrow> int" where
  "DateFromTime t =
     DayWithinYear t - month_starts (leap (YearFromTime t)) ! nat (MonthFromTime t) + 1"

definition MakeDay :: "int \<Rightarrow> int \<Rightarrow> int \<Rightarrow> int" where
  "MakeDay year month date =
     (let ym = year + month div 12;
          mn = month mod 12
      in DayFromYear ym + month_starts (leap ym) ! nat mn + date - 1)"

definition MakeDate :: "int \<Rightarrow> int \<Rightarrow> int" where
  "MakeDate day time = day * msPerDay + time"

definition LocalTime :: "host \<Rightarrow> int \<Rightarrow> int" where
  "LocalTime h t = t + LocalTZA h t True"

definition UTC :: "host \<Rightarrow> int \<Rightarrow> int" where
  "UTC h t = t - LocalTZA h t False"

definition getMonth :: "host \<Rightarrow> int \<Rightarrow> int" where
  "getMonth h t = MonthFromTime (LocalTime h t)"

definition setMonth :: "host \<Rightarrow> int \<Rightarrow> int \<Rightarrow> int" where
  "setMonth h t month =
     (let lt = LocalTime h t;
          newDate = MakeDate (MakeDay (YearFromTime lt) month (DateFromTime lt)) (TimeWithinDay lt)
      in UTC h newDate)"

definition pad :: "nat \<Rightarrow> int \<Rightarrow> string" where
  "pad k n = replicate (k - length (digits (nat n))) (CHR ''0'') @ digits (nat n)"

definition toISOString :: "int \<Rightarrow> string" where
  "toISOString t =
     (let y = YearFromTime t;
          year = (if 0 \<le> y \<and> y \<le> 9999 then pad 4 y
                  else (if y < 0 then ''-'' else ''+'') @ pad 6 (abs y))
      in year @ ''-'' @ pad 2 (MonthFromTime t + 1) @ ''-'' @ pad 2 (DateFromTime t) @ ''T''
         @ pad 2 (TimeWithinDay t div 3600000) @ '':'' @ pad 2 (t div 60000 mod 60) @ '':''
         @ pad 2 (t div 1000 mod 60) @ ''.'' @ pad 3 (t mod 1000) @ ''Z'')"

text \<open>\<open>s.split('T')[0]\<close>: the text before the first \<open>T\<close>.\<close>

definition split_T_0 :: "string \<Rightarrow> string" where
  "split_T_0 s = takeWhile (\<lambda>c. c \<noteq> CHR ''T'') s"

definition getRecentDate :: "host \<Rightarrow> int \<Rightarrow> string" where
  "getRecentDate h months =
     (let date = now_query h;
          date' = setMonth h date (getMonth h date - months)
      in split_T_0 (toISOString date'))"

subsection \<open>The helper \<open>pick\<close>\<close>

text \<open>
  Modelled from the spec: \<open>pick\<close> of \<open>@/helpers/random\<close> is imported by \<open>app.tsx\<close> and its
  source is not part of the files at hand. The specification says of it that it selects
  one entry of a sequence uniformly at random, from the ambient random source. The draw of
  that source is the argument \<open>i\<close>, a position of the sequence; a sequence with no position
  \<open>i\<close> (the empty one has none) yields \<open>undefined\<close>.
\<close>

definition pick :: "'a list \<Rightarrow> nat \<Rightarrow> 'a option" where
  "pick xs i = (if i < length xs then Some (xs ! i) else None)"

text \<open>
  Modelled from the spec: "uniformly at random" for \<open>pick\<close>, whose source is missing. Each
  of the \<open>N\<close> positions is drawn with probability \<open>1 / N\<close>, so an entry is selected with the
  probability of the positions that hold it.
\<close>

definition select_probability :: "'a list \<Rightarrow> 'a \<Rightarrow> real" where
  "select_probability xs x =
     real (length (filter (\<lambda>i. pick xs i = Some x) [0..<length xs])) / real (length xs)"

subsection \<open>The query (lines 107 to 120)\<close>

definition unreserved :: "char \<Rightarrow> bool" where
  "unreserved c =
     (let n = (of_char c :: nat) in
      (65 \<le> n \<and> n \<le> 90) \<or> (97 \<le> n \<and> n \<le> 122) \<or> (48 \<le> n \<and> n \<le> 57)
      \<or> c \<in> set ''-_.!~*()'' \<or> c = CHR 0x27)"

definition percent :: "char \<Rightarrow> string" where
  "percent c =
     [CHR ''%'', ''0123456789ABCDEF'' ! (of_char c div 16), ''0123456789ABCDEF'' ! (of_char c mod 16)]"

definition encodeURIComponent :: "string \<Rightarrow> string" where
  "encodeURIComponent s = concat (map (\<lambda>c. if unreserved c then [c] else percent c) s)"

fun join :: "string \<Rightarrow> string list \<Rightarrow> string" where
  "join sep [] = []"
| "join sep [x] = x"
| "join sep (x # y # ys) = x @ sep @ join sep (y # ys)"

definition minStars :: "host \<Rightarrow> int option" where
  "minStars h = pick [500, 1000, 2000, 5000] (stars_draw h)"

definition maxStars :: "host \<Rightarrow> int option" where
  "maxStars h = map_option (\<lambda>m. m + 10000) (minStars h)"

definition queryParts :: "host \<Rightarrow> string list" where
  "queryParts h =
     [''stars:'' @ interpolate ''undefined'' (minStars h) @ ''..'' @ interpolate ''NaN'' (maxStars h),
      ''pushed:>'' @ getRecentDate h 6,
      ''archived:false'',
      ''is:public'']"

text \<open>
  \<open>Math.floor(x * y)\<close> where \<open>x * y\<close> is the IEEE 754 product of two doubles, for an exact
  product \<open>p\<close> from 0 to 10. The product is rounded to the nearest double (ties to the even
  significand), so its floor is the next integer \<open>k\<close> above \<open>p\<close> when \<open>p\<close> is within half a
  spacing of \<open>k\<close>, and the floor of \<open>p\<close> otherwise; \<open>spacing_below k\<close> is the distance
  between \<open>k\<close> and the double before it.
\<close>

definition spacing_below :: "int \<Rightarrow> real" where
  "spacing_below k =
     (if k \<le> 1 then 1 / 2 ^ 53 else if k \<le> 2 then 1 / 2 ^ 52 else if k \<le> 4 then 1 / 2 ^ 51
      else if k \<le> 8 then 1 / 2 ^ 50 else 1 / 2 ^ 49)"

definition floor_product :: "real \<Rightarrow> real \<Rightarrow> int" where
  "floor_product x y =
     (let p = x * y;
          k = \<lfloor>p\<rfloor> + 1
      in if real_of_int k - p \<le> spacing_below k / 2 then k else k - 1)"

definition randomPage :: "host \<Rightarrow> int" where
  "randomPage h = floor_product (Rep_random_value (page_random h)) 10 + 1"

definition url :: "host \<Rightarrow> string" where
  "url h =
     ''https://api.github.com/search/repositories?q='' @ encodeURIComponent (join '' '' (queryParts h))
     @ ''&sort=updated&order=desc&per_page=100&page='' @ toString (randomPage h)"

subsection \<open>The effect \<open>fetchRepos\<close> (lines 88 to 157)\<close>

definition CACHE_KEY :: string where
  "CACHE_KEY = ''gitscovery_repos''"

definition CACHE_TIMESTAMP_KEY :: string where
  "CACHE_TIMESTAMP_KEY = ''gitscovery_timestamp''"

definition CACHE_DURATION :: int where
  "CACHE_DURATION = 1000 * 60 * 30"

text \<open>A value of \<open>getItem\<close> is truthy when it is neither \<open>null\<close> nor the empty string.\<close>

definition truthy :: "string option \<Rightarrow> bool" where
  "truthy v = (case v of None \<Rightarrow> False | Some s \<Rightarrow> s \<noteq> [])"

text \<open>
  Lines 94 and 95, as the truth value the \<open>if\<close> of line 97 sees: a comparison with \<open>NaN\<close>
  is false.
\<close>

definition isCacheValid :: "host \<Rightarrow> string option \<Rightarrow> bool" where
  "isCacheValid h timestamp =
     (case timestamp of
        None \<Rightarrow> False
      | Some ts \<Rightarrow>
          ts \<noteq> [] \<and>
          (case parseInt ts of None \<Rightarrow> False | Some T \<Rightarrow> now_check h - T < CACHE_DURATION))"

definition setRepos :: "string list \<Rightarrow> world \<Rightarrow> world" where
  "setRepos xs w = w\<lparr>repos := xs\<rparr>"

definition setIsLoading :: "bool \<Rightarrow> world \<Rightarrow> world" where
  "setIsLoading b w = w\<lparr>isLoading := b\<rparr>"

definition setItem :: "string \<Rightarrow> string \<Rightarrow> world \<Rightarrow> world" where
  "setItem k v w = w\<lparr>localStorage := (localStorage w)(k \<mapsto> v)\<rparr>"

definition console_log :: "log \<Rightarrow> world \<Rightarrow> world" where
  "console_log l w = w\<lparr>console := console w @ [l]\<rparr>"

definition fetch :: "string \<Rightarrow> world \<Rightarrow> world" where
  "fetch u w = w\<lparr>requests := requests w @ [u]\<rparr>"

text \<open>
  \<open>setRepos(JSON.parse(cached))\<close>, at lines 98 and 129. \<open>JSON.parse\<close> converts its argument
  to a string first (\<open>null\<close> becomes the text \<open>null\<close>); both call sites are guarded by
  \<open>cached\<close> being truthy.
\<close>

definition setRepos_parsed :: "host \<Rightarrow> string option \<Rightarrow> world \<Rightarrow> js_error option \<times> world" where
  "setRepos_parsed h cached w =
     (case JSON_parse h (case cached of None \<Rightarrow> ''null'' | Some c \<Rightarrow> c) of
        None \<Rightarrow> (Some SyntaxError, w)
      | Some xs \<Rightarrow> (None, setRepos xs w))"

text \<open>
  The body of the \<open>try\<close> (lines 123 to 151), entered once \<open>fetch\<close> has been called: the
  error it raises, if any, and the world at that moment.
\<close>

definition try_body :: "host \<Rightarrow> string option \<Rightarrow> world \<Rightarrow> js_error option \<times> world" where
  "try_body h cached w =
     (case fetch_result h of
        Rejected \<Rightarrow> (Some NetworkError, w)
      | Resolved res \<Rightarrow>
          if \<not> ok res then
            if (status res = 403 \<or> status res = 429) \<and> truthy cached then
              setRepos_parsed h cached (console_log (Warn ''Rate limited, using cached data.'') w)
            else (Some GitHubAPIError, w)
          else
            (case payload res of
               NotJson \<Rightarrow> (Some SyntaxError, w)
             | Json None \<Rightarrow> (Some TypeError, w)
             | Json (Some items) \<Rightarrow>
                 let validUrls = map html_url (filter (\<lambda>item. open_issues_count item > 0) items);
                     w1 = setRepos validUrls w;
                     w2 = setItem CACHE_KEY (JSON_stringify h validUrls) w1;
                     w3 = setItem CACHE_TIMESTAMP_KEY (toString (now_save h)) w2
                 in (None, w3)))"

text \<open>The test of line 97.\<close>

definition cache_hit :: "host \<Rightarrow> world \<Rightarrow> bool" where
  "cache_hit h w =
     (truthy (localStorage w CACHE_KEY) \<and> isCacheValid h (localStorage w CACHE_TIMESTAMP_KEY))"

text \<open>
  \<open>fetchRepos\<close>: the error that leaves the function (the rejection of its promise), and
  the world it leaves. The \<open>catch\<close> logs what the \<open>try\<close> raised; the \<open>finally\<close> runs on every
  way out of the \<open>try\<close>, the \<open>return\<close> of line 131 included.
\<close>

definition fetchRepos :: "host \<Rightarrow> world \<Rightarrow> js_error option \<times> world" where
  "fetchRepos h w =
     (let cached = localStorage w CACHE_KEY
      in if cache_hit h w then setRepos_parsed h cached w
         else
           let w1 = setIsLoading True w;
               w2 = fetch (url h) w1;
               (thrown, w3) = try_body h cached w2;
               w4 = (case thrown of None \<Rightarrow> w3 | Some error \<Rightarrow> console_log (Error error) w3)
           in (None, setIsLoading False w4))"

subsection \<open>The button (lines 162 to 182)\<close>

definition handleClick :: "host \<Rightarrow> nat \<Rightarrow> world \<Rightarrow> world" where
  "handleClick h draw w =
     (let randomRepo = pick (repos w) draw
      in if window_open h then w\<lparr>opened := opened w @ [(randomRepo, ''_blank'')]\<rparr> else w)"

definition disabled :: "world \<Rightarrow> bool" where
  "disabled w = (isLoading w \<or> length (repos w) = 0)"

text \<open>
  Activation: the button is rendered with \<open>disabled\<close> and \<open>onClick={handleClick}\<close>, and a
  disabled button dispatches no click, so the handler runs on an enabled button only.
\<close>

definition click :: "host \<Rightarrow> nat \<Rightarrow> world \<Rightarrow> world" where
  "click h draw w = (if disabled w then w else handleClick h draw w)"

subsection \<open>The life of one mounted component\<close>

text \<open>The first render: \<open>useState([])\<close> and \<open>useState(false)\<close>, over the stored cache.\<close>

definition mounted :: "(string \<rightharpoonup> string) \<Rightarrow> world" where
  "mounted store =
     \<lparr>repos = [], isLoading = False, localStorage = store, requests = [], console = [], opened = []\<rparr>"

text \<open>The world while the promise of \<open>fetch\<close> (or of \<open>res.json()\<close>) is pending.\<close>

definition awaiting :: "host \<Rightarrow> world \<Rightarrow> world" where
  "awaiting h w = fetch (url h) (setIsLoading True w)"

text \<open>
  The worlds in which an event can reach the button: the effect runs once per mount, its
  code between two \<open>await\<close>s runs without interruption, and clicks may come at any moment
  in between.
\<close>

inductive reachable :: "host \<Rightarrow> (string \<rightharpoonup> string) \<Rightarrow> world \<Rightarrow> bool" for h store where
  first_render: "reachable h store (mounted store)"
| fetch_pending: "\<not> cache_hit h (mounted store) \<Longrightarrow> reachable h store (awaiting h (mounted store))"
| effect_done: "reachable h store (snd (fetchRepos h (mounted store)))"
| clicked: "reachable h store w \<Longrightarrow> reachable h store (click h draw w)"

code_pred reachable .

subsection \<open>Conditions the properties speak about\<close>

text \<open>
  The failures of a fetch that the rate-limit fallback does not take: the promise of
  \<open>fetch\<close> rejects, the body is not JSON or has no \<open>items\<close>, or the status is outside
  200 to 299 and the test of line 126 fails. The value is the error raised.
\<close>

definition hard_failure :: "host \<Rightarrow> string option \<Rightarrow> js_error option" where
  "hard_failure h cached =
     (case fetch_result h of
        Rejected \<Rightarrow> Some NetworkError
      | Resolved res \<Rightarrow>
          if ok res then
            (case payload res of
               NotJson \<Rightarrow> Some SyntaxError
             | Json None \<Rightarrow> Some TypeError
             | Json (Some items) \<Rightarrow> None)
          else if (status res = 403 \<or> status res = 429) \<and> truthy cached then None
          else Some GitHubAPIError)"

subsection \<open>A host and a cache for the examples\<close>

text \<open>
  The clock stands at 2024-08-31T12:00:00Z in the time zone UTC. \<open>JSON.stringify\<close> of a
  list of URLs that need no escaping is the bracketed list of the quoted URLs, and
  \<open>JSON.parse\<close> reads the one cached text of the examples back.
\<close>

definition example_url :: string where
  "example_url = ''https://github.com/a/a''"

definition example_stringify :: "string list \<Rightarrow> string" where
  "example_stringify xs = ''['' @ join '','' (map (\<lambda>s. [CHR 0x22] @ s @ [CHR 0x22]) xs) @ '']''"

definition example_parse :: "string \<Rightarrow> string list option" where
  "example_parse s = (if s = example_stringify [example_url] then Some [example_url] else None)"

definition example_host :: host where
  "example_host =
     \<lparr>now_check = 1725105600000, now_query = 1725105600000, now_save = 1725105600500,
      LocalTZA = (\<lambda>t isUTC. 0), stars_draw = 0, page_random = Abs_random_value 0,
      fetch_result = Rejected,
      JSON_parse = example_parse, JSON_stringify = example_stringify, window_open = True\<rparr>"

definition example_store :: "string \<Rightarrow> (string \<rightharpoonup> string)" where
  "example_store ts = [CACHE_KEY \<mapsto> example_stringify [example_url], CACHE_TIMESTAMP_KEY \<mapsto> ts]"

text \<open>The same host answering with HTTP 429, with a page of two items, and without \<open>window.open\<close>.\<close>

definition example_limited :: host where
  "example_limited = example_host\<lparr>fetch_result := Resolved \<lparr>status = 429, payload = NotJson\<rparr>\<rparr>"

definition example_items :: "item list" where
  "example_items =
     [\<lparr>open_issues_count = 0, html_url = ''u1''\<rparr>, \<lparr>open_issues_count = 3, html_url = ''u2''\<rparr>]"

definition example_success :: host where
  "example_success =
     example_host\<lparr>fetch_result := Resolved \<lparr>status = 200, payload = Json (Some example_items)\<rparr>\<rparr>"

definition example_headless :: host where
  "example_headless = example_host\<lparr>window_open := False\<rparr>"

section \<open>Properties\<close>

subsection \<open>The calendar\<close>

lemma div_lo: "(k::int) > 0 \<Longrightarrow> k * (a div k) \<le> a"
  by (metis pos_mod_sign mult_div_mod_eq le_add_same_cancel1)

lemma div_hi: "(k::int) > 0 \<Longrightarrow> a < k * (a div k) + k"
  by (metis mult_div_mod_eq add_strict_left_mono pos_mod_bound)

lemma DayFromYear_parts:
  obtains A B C where "DayFromYear y = 365 * (y - 1970) + A - B + C"
    "4 * A \<le> y - 1969" "y - 1969 < 4 * A + 4"
    "100 * B \<le> y - 1901" "y - 1901 < 100 * B + 100"
    "400 * C \<le> y - 1601" "y - 1601 < 400 * C + 400"
proof
  show "DayFromYear y =
      365 * (y - 1970) + (y - 1969) div 4 - (y - 1901) div 100 + (y - 1601) div 400"
    by (simp add: DayFromYear_def)
qed (simp_all add: div_lo div_hi)

lemma DayFromYear_upper: "400 * DayFromYear y \<le> 146097 * (y - 1970) + 589"
proof -
  obtain A B C where "DayFromYear y = 365 * (y - 1970) + A - B + C"
    "4 * A \<le> y - 1969" "y - 1901 < 100 * B + 100" "400 * C \<le> y - 1601"
    by (rule DayFromYear_parts)
  then show ?thesis by (simp add: algebra_simps)
qed

lemma DayFromYear_lower: "146097 * (y - 1970) - 506 \<le> 400 * DayFromYear y"
proof -
  obtain A B C where "DayFromYear y = 365 * (y - 1970) + A - B + C"
    "y - 1969 < 4 * A + 4" "100 * B \<le> y - 1901" "y - 1601 < 400 * C + 400"
    by (rule DayFromYear_parts)
  then show ?thesis by (simp add: algebra_simps)
qed

text \<open>\<open>YearFromDay\<close> is the year ECMAScript defines: the last one that starts by day \<open>d\<close>.\<close>

lemma YearFromDay_spec:
  "DayFromYear (YearFromDay d) \<le> d \<and> d < DayFromYear (YearFromDay d + 1)"
proof -
  define y where "y = 1970 + (d * 400) div 146097"
  have e1: "146097 * (y - 1970) \<le> d * 400"
    unfolding y_def using div_lo [of 146097 "d * 400"] by simp
  have e2: "d * 400 < 146097 * (y - 1970) + 146097"
    unfolding y_def using div_hi [of 146097 "d * 400"] by simp
  have lo: "DayFromYear (y - 1) \<le> d"
    using DayFromYear_upper [of "y - 1"] e1 by (simp add: algebra_simps)
  have hi: "d < DayFromYear (y + 2)"
    using DayFromYear_lower [of "y + 2"] e2 by (simp add: algebra_simps)
  have Y: "YearFromDay d = (if DayFromYear (y + 1) \<le> d then y + 1
      else if DayFromYear y \<le> d then y else y - 1)"
    unfolding YearFromDay_def y_def by (simp add: Let_def)
  have two: "y + 1 + 1 = y + 2" by simp
  show ?thesis
  proof (cases "DayFromYear (y + 1) \<le> d")
    case True
    then show ?thesis using hi by (simp add: Y two)
  next
    case False
    then show ?thesis using lo by (simp add: Y)
  qed
qed

subsection \<open>Evaluating the examples\<close>

lemmas parse_defs = parseInt_def starts_with_def ws_prefixes_def is_digit_def digit_of_def

lemma parseInt_empty: "parseInt [] = None"
  by (simp add: parseInt_def starts_with_def)

lemma parseInt_fresh: "parseInt ''1725105300000'' = Some 1725105300000"
  by (simp add: parse_defs)

lemma parseInt_stale: "parseInt ''1725102000000'' = Some 1725102000000"
  by (simp add: parse_defs)

lemma parseInt_soon: "parseInt ''soon'' = None"
  by (simp add: parse_defs)

lemma toString_save: "toString 1725105600500 = ''1725105600500''"
  by (simp add: toString_def digits.simps)

lemma keys_differ: "CACHE_KEY \<noteq> CACHE_TIMESTAMP_KEY"
  by (simp add: CACHE_KEY_def CACHE_TIMESTAMP_KEY_def)

lemma example_cached:
  "localStorage (mounted (example_store ts)) CACHE_KEY = Some (example_stringify [example_url])"
  using keys_differ by (simp add: mounted_def example_store_def)

lemma example_timestamp: "localStorage (mounted (example_store ts)) CACHE_TIMESTAMP_KEY = Some ts"
  by (simp add: mounted_def example_store_def)

lemma example_text: "example_stringify [example_url] \<noteq> []"
  by (simp add: example_stringify_def)

lemma example_parsed: "JSON_parse example_host (example_stringify [example_url]) = Some [example_url]"
  by (simp add: example_host_def example_parse_def)

lemma no_cache: "\<not> cache_hit h (mounted Map.empty)"
  by (simp add: cache_hit_def mounted_def truthy_def)

subsection \<open>The two ways through \<open>fetchRepos\<close>\<close>

lemma fetchRepos_hit:
  "cache_hit h w \<Longrightarrow> fetchRepos h w = setRepos_parsed h (localStorage w CACHE_KEY) w"
  by (simp add: fetchRepos_def)

lemma fetchRepos_miss:
  "\<not> cache_hit h w \<Longrightarrow>
   fetchRepos h w =
     (None, setIsLoading False
        (case try_body h (localStorage w CACHE_KEY) (awaiting h w) of
           (None, w3) \<Rightarrow> w3
         | (Some error, w3) \<Rightarrow> console_log (Error error) w3))"
  by (simp add: fetchRepos_def awaiting_def Let_def split: prod.splits option.splits)

text \<open>
  Line 98 is outside the \<open>try\<close>: a fresh cache whose text \<open>JSON.parse\<close> rejects makes
  \<open>fetchRepos\<close> raise, with the world untouched. It is the only raise that leaves it.
\<close>

lemma fetchRepos_raises:
  "fst (fetchRepos h w) = Some e \<Longrightarrow>
   cache_hit h w \<and> e = SyntaxError \<and> snd (fetchRepos h w) = w
   \<and> (\<exists>c. localStorage w CACHE_KEY = Some c \<and> JSON_parse h c = None)"
  by (cases "cache_hit h w")
    (auto simp: fetchRepos_hit fetchRepos_miss setRepos_parsed_def cache_hit_def truthy_def
      split: option.splits)

lemma cache_hit_iff:
  "localStorage w CACHE_KEY = Some c \<Longrightarrow> c \<noteq> [] \<Longrightarrow>
   localStorage w CACHE_TIMESTAMP_KEY = Some ts \<Longrightarrow> parseInt ts = Some T \<Longrightarrow>
   cache_hit h w = (now_check h - T < 1800000)"
  by (auto simp: cache_hit_def truthy_def isCacheValid_def CACHE_DURATION_def parseInt_empty)

lemma requests_miss:
  "\<not> cache_hit h w \<Longrightarrow> requests (snd (fetchRepos h w)) = requests w @ [url h]"
  by (simp add: fetchRepos_miss awaiting_def try_body_def setIsLoading_def fetch_def
      console_log_def setRepos_parsed_def setRepos_def setItem_def Let_def
      split: fetch_result.splits body.splits option.splits prod.splits)

lemma not_ok_limited: "status res = 403 \<or> status res = 429 \<Longrightarrow> \<not> ok res"
  by (auto simp: ok_def)

lemma loading_cleared_miss: "\<not> cache_hit h w \<Longrightarrow> isLoading (snd (fetchRepos h w)) = False"
  by (simp add: fetchRepos_miss setIsLoading_def)

lemma loading_kept_hit: "cache_hit h w \<Longrightarrow> isLoading (snd (fetchRepos h w)) = isLoading w"
  by (simp add: fetchRepos_hit setRepos_parsed_def setRepos_def split: option.splits)

lemma loading_cleared_mounted: "isLoading (snd (fetchRepos h (mounted store))) = False"
  using loading_cleared_miss [of h "mounted store"] loading_kept_hit [of h "mounted store"]
  by (cases "cache_hit h (mounted store)") (simp_all add: mounted_def)

subsection \<open>The cache and the fetch\<close>

text \<open>
  C1. Let a cache entry be stored: the list key holds a text that \<open>JSON.parse\<close> reads as
  the list \<open>xs\<close>, and the timestamp key a text that \<open>parseInt\<close> reads as \<open>T\<close>. Then
  \<open>fetchRepos\<close> leaves the world with \<open>repos\<close> set to \<open>xs\<close> and nothing else changed (no
  request is issued, nothing is raised) if and only if \<open>now - T < 1800000\<close>; otherwise it
  issues the request.
\<close>

theorem cache_validity:
  assumes "localStorage w CACHE_KEY = Some c" and "c \<noteq> []" and "JSON_parse h c = Some xs"
    and "localStorage w CACHE_TIMESTAMP_KEY = Some ts" and "parseInt ts = Some T"
  shows "(fetchRepos h w = (None, w\<lparr>repos := xs\<rparr>)) = (now_check h - T < 1800000)
    \<and> requests (snd (fetchRepos h w)) =
        (if now_check h - T < 1800000 then requests w else requests w @ [url h])"
proof (cases "cache_hit h w")
  case True
  then have "fetchRepos h w = (None, w\<lparr>repos := xs\<rparr>)"
    using assms by (simp add: fetchRepos_hit setRepos_parsed_def setRepos_def)
  then show ?thesis
    using True cache_hit_iff [OF assms(1,2,4,5), of h] by simp
next
  case False
  then have r: "requests (snd (fetchRepos h w)) = requests w @ [url h]"
    by (rule requests_miss)
  then have "fetchRepos h w \<noteq> (None, w\<lparr>repos := xs\<rparr>)"
    by auto
  then show ?thesis
    using False r cache_hit_iff [OF assms(1,2,4,5), of h] by simp
qed

theorem cache_validity_witness:
  "fetchRepos example_host (mounted (example_store ''1725105300000'')) =
     (None, \<lparr>repos = [example_url], isLoading = False,
        localStorage = example_store ''1725105300000'', requests = [], console = [],
        opened = []\<rparr>)
   \<and> fetchRepos example_host (mounted (example_store ''1725102000000'')) \<noteq>
     (None, \<lparr>repos = [example_url], isLoading = False,
        localStorage = example_store ''1725102000000'', requests = [], console = [],
        opened = []\<rparr>)
   \<and> requests (snd (fetchRepos example_host (mounted (example_store ''1725102000000'')))) =
     [url example_host]"
proof -
  have n: "now_check example_host = 1725105600000"
    by (simp add: example_host_def)
  have m: "(mounted store)\<lparr>repos := xs\<rparr> =
      \<lparr>repos = xs, isLoading = False, localStorage = store, requests = [], console = [],
       opened = []\<rparr>" for store xs
    by (simp add: mounted_def)
  have r: "requests (mounted store) = []" for store
    by (simp add: mounted_def)
  show ?thesis
    using cache_validity [OF example_cached example_text example_parsed example_timestamp
        parseInt_fresh]
      cache_validity [OF example_cached example_text example_parsed example_timestamp
        parseInt_stale]
    by (simp add: n m r)
qed

text \<open>
  C2. When the request is issued and answered with a status from 200 to 299 and a JSON
  body with an \<open>items\<close> array, the candidate list becomes the \<open>html_url\<close> of the items
  whose \<open>open_issues_count\<close> is positive, in their order; the JSON text of this list
  and the text of the current clock are written under the two cache keys, over whatever
  was there; the loading flag is cleared and nothing is raised.
\<close>

theorem filtering_and_persisting:
  assumes "\<not> cache_hit h w" and "fetch_result h = Resolved res" and "ok res"
    and "payload res = Json (Some items)"
  shows "fetchRepos h w =
    (None, w\<lparr>repos := map html_url (filter (\<lambda>item. 0 < open_issues_count item) items),
        isLoading := False,
        localStorage := (localStorage w)
          (CACHE_KEY \<mapsto>
             JSON_stringify h (map html_url (filter (\<lambda>item. 0 < open_issues_count item) items)),
           CACHE_TIMESTAMP_KEY \<mapsto> toString (now_save h)),
        requests := requests w @ [url h]\<rparr>)"
  using assms
  by (simp add: fetchRepos_miss awaiting_def try_body_def setIsLoading_def fetch_def
      setRepos_def setItem_def Let_def)

theorem filtering_and_persisting_witness:
  "fetchRepos example_success (mounted Map.empty) =
     (None, \<lparr>repos = [''u2''], isLoading = False,
        localStorage = [CACHE_KEY \<mapsto> ''['' @ [CHR 0x22] @ ''u2'' @ [CHR 0x22] @ '']'',
                        CACHE_TIMESTAMP_KEY \<mapsto> ''1725105600500''],
        requests = [url example_success], console = [], opened = []\<rparr>)"
proof -
  have f: "fetch_result example_success =
      Resolved \<lparr>status = 200, payload = Json (Some example_items)\<rparr>"
    by (simp add: example_success_def)
  have s: "now_save example_success = 1725105600500"
    "JSON_stringify example_success = example_stringify"
    by (simp_all add: example_success_def example_host_def)
  show ?thesis
    using filtering_and_persisting [OF no_cache f, of example_items]
    by (simp add: ok_def s toString_save example_stringify_def example_items_def mounted_def)
qed

text \<open>
  C3. When a cache entry exists (the list key holds a text that \<open>JSON.parse\<close> reads as
  \<open>xs\<close>), whatever its timestamp, and the answer of \<open>fetch\<close> has status 403 or 429, the
  candidate list becomes \<open>xs\<close> and nothing is raised; where the request was issued, the
  only console line is the warning.
\<close>

theorem rate_limit_fallback:
  assumes "localStorage w CACHE_KEY = Some c" and "c \<noteq> []" and "JSON_parse h c = Some xs"
    and "fetch_result h = Resolved res" and "status res = 403 \<or> status res = 429"
  shows "fst (fetchRepos h w) = None \<and> repos (snd (fetchRepos h w)) = xs
    \<and> console (snd (fetchRepos h w)) =
        (if cache_hit h w then console w
         else console w @ [Warn ''Rate limited, using cached data.''])"
proof (cases "cache_hit h w")
  case True
  then show ?thesis
    using assms by (simp add: fetchRepos_hit setRepos_parsed_def setRepos_def)
next
  case False
  then show ?thesis
    using assms not_ok_limited [OF assms(5)]
    by (simp add: fetchRepos_miss awaiting_def try_body_def setIsLoading_def fetch_def
        setRepos_parsed_def setRepos_def console_log_def truthy_def)
qed

theorem rate_limit_fallback_witness:
  "fst (fetchRepos example_limited (mounted (example_store ''1725102000000''))) = None
   \<and> repos (snd (fetchRepos example_limited (mounted (example_store ''1725102000000'')))) =
       [example_url]
   \<and> console (snd (fetchRepos example_limited (mounted (example_store ''1725102000000'')))) =
       [Warn ''Rate limited, using cached data.'']"
proof -
  have p: "JSON_parse example_limited (example_stringify [example_url]) = Some [example_url]"
    using example_parsed by (simp add: example_limited_def example_host_def)
  have f: "fetch_result example_limited = Resolved \<lparr>status = 429, payload = NotJson\<rparr>"
    by (simp add: example_limited_def)
  have "cache_hit example_limited (mounted (example_store ''1725102000000'')) =
      (now_check example_limited - 1725102000000 < 1800000)"
    by (rule cache_hit_iff [OF example_cached example_text example_timestamp parseInt_stale])
  then have m: "\<not> cache_hit example_limited (mounted (example_store ''1725102000000''))"
    by (simp add: example_limited_def example_host_def)
  show ?thesis
    using rate_limit_fallback [OF example_cached example_text p f] m
    by (simp add: mounted_def)
qed

text \<open>
  C4. The button is enabled exactly when the loading flag is false and the candidate list
  has positive length.
\<close>

theorem disabled_invariant: "(\<not> disabled w) = (isLoading w = False \<and> 0 < length (repos w))"
  by (simp add: disabled_def)

subsection \<open>The query of the example\<close>

lemmas date_defs = Day_def msPerDay_def TimeWithinDay_def YearFromTime_def YearFromDay_def
  DayFromYear_def leap_def DayWithinYear_def month_starts_def MonthFromTime_def DateFromTime_def

lemma replicate_numeral: "replicate (numeral k) x = x # replicate (pred_numeral k) x"
  by (simp add: numeral_eq_Suc)

lemma fields_2024_08_31:
  "YearFromTime 1725105600000 = 2024 \<and> MonthFromTime 1725105600000 = 7
   \<and> DateFromTime 1725105600000 = 31 \<and> TimeWithinDay 1725105600000 = 43200000"
  by (simp add: date_defs)

lemma setMonth_2024_08_31: "setMonth example_host 1725105600000 1 = 1709380800000"
  using fields_2024_08_31
  by (simp add: setMonth_def LocalTime_def UTC_def example_host_def MakeDate_def MakeDay_def
      DayFromYear_def leap_def month_starts_def msPerDay_def)

lemma toISOString_2024_03_02: "toISOString 1709380800000 = ''2024-03-02T12:00:00.000Z''"
  by (simp add: toISOString_def pad_def digits.simps date_defs replicate_numeral)

lemma toISOString_2024_08_31: "toISOString 1725105600000 = ''2024-08-31T12:00:00.000Z''"
  by (simp add: toISOString_def pad_def digits.simps date_defs replicate_numeral)

lemma getRecentDate_2024_08_31: "getRecentDate example_host 6 = ''2024-03-02''"
proof -
  have "now_query example_host = 1725105600000"
    by (simp add: example_host_def)
  moreover have "getMonth example_host 1725105600000 - 6 = 1"
    using fields_2024_08_31 by (simp add: getMonth_def LocalTime_def example_host_def)
  ultimately show ?thesis
    by (simp add: getRecentDate_def setMonth_2024_08_31 toISOString_2024_03_02 split_T_0_def)
qed

text \<open>The calendar on other days, and the cutoff on a day in the middle of a month.\<close>

lemma toISOString_epoch: "toISOString 0 = ''1970-01-01T00:00:00.000Z''"
  by (simp add: toISOString_def pad_def digits.simps date_defs replicate_numeral)

lemma toISOString_before_epoch: "toISOString (- 1) = ''1969-12-31T23:59:59.999Z''"
  by (simp add: toISOString_def pad_def digits.simps date_defs replicate_numeral)

lemma toISOString_leap_day: "toISOString 951782400000 = ''2000-02-29T00:00:00.000Z''"
  by (simp add: toISOString_def pad_def digits.simps date_defs replicate_numeral)

lemma getRecentDate_mid_month:
  "toISOString 1705321800000 = ''2024-01-15T12:30:00.000Z''
   \<and> getRecentDate (example_host\<lparr>now_query := 1705321800000\<rparr>) 6 = ''2023-07-15''"
proof -
  have f: "YearFromTime 1705321800000 = 2024 \<and> MonthFromTime 1705321800000 = 0
      \<and> DateFromTime 1705321800000 = 15 \<and> TimeWithinDay 1705321800000 = 45000000"
    by (simp add: date_defs)
  have s: "setMonth (example_host\<lparr>now_query := 1705321800000\<rparr>) 1705321800000 (- 6) = 1689424200000"
    using f
    by (simp add: setMonth_def LocalTime_def UTC_def example_host_def MakeDate_def MakeDay_def
        DayFromYear_def leap_def month_starts_def msPerDay_def)
  have i: "toISOString 1689424200000 = ''2023-07-15T12:30:00.000Z''"
    by (simp add: toISOString_def pad_def digits.simps date_defs replicate_numeral)
  have j: "toISOString 1705321800000 = ''2024-01-15T12:30:00.000Z''"
    by (simp add: toISOString_def pad_def digits.simps date_defs replicate_numeral)
  have g: "getMonth (example_host\<lparr>now_query := 1705321800000\<rparr>) 1705321800000 - 6 = - 6"
    using f by (simp add: getMonth_def LocalTime_def example_host_def)
  show ?thesis
    using g by (simp add: getRecentDate_def s i j split_T_0_def)
qed

lemma stars_example: "minStars example_host = Some 500 \<and> maxStars example_host = Some 10500"
  by (simp add: minStars_def maxStars_def pick_def example_host_def)

text \<open>
  C5. For a call at noon UTC on 31 August 2024, with the draw that picks 500 stars,
  \<open>maxStars\<close> is \<open>minStars + 10000\<close>, but the cutoff of the query is 2 March 2024 and not
  a day six months before the call: \<open>setMonth(1)\<close> keeps the day 31, and 31 February
  overflows into March.
\<close>

theorem recent_date_overflow:
  "toISOString (now_query example_host) = ''2024-08-31T12:00:00.000Z''
   \<and> LocalTZA example_host = (\<lambda>t isUTC. 0)
   \<and> minStars example_host = Some 500 \<and> maxStars example_host = Some (500 + 10000)
   \<and> queryParts example_host =
       [''stars:500..10500'', ''pushed:>2024-03-02'', ''archived:false'', ''is:public'']"
proof -
  have "now_query example_host = 1725105600000" "LocalTZA example_host = (\<lambda>t isUTC. 0)"
    by (simp_all add: example_host_def)
  then show ?thesis
    using stars_example
    by (simp add: queryParts_def getRecentDate_2024_08_31 toISOString_2024_08_31
        interpolate_def toString_def digits.simps)
qed

text \<open>
  The page is between 1 and 10. For the double nearest to 0.3 the exact product with 10
  is below 3, the IEEE product is 3, and the page is 4; for the draw of the example it is 1.
\<close>

lemma randomPage_range: "1 \<le> randomPage h \<and> randomPage h \<le> 10"
proof -
  define x where "x = Rep_random_value (page_random h)"
  have x: "0 \<le> x" "x \<le> 1 - 1 / 2 ^ 53"
    using Rep_random_value [of "page_random h"] by (simp_all add: x_def)
  define k where "k = \<lfloor>x * 10\<rfloor> + 1"
  have "0 \<le> \<lfloor>x * 10\<rfloor>"
    using x(1) by simp
  moreover have "\<lfloor>x * 10\<rfloor> < 10"
    using x(2) by (simp add: floor_less_iff)
  ultimately have k: "1 \<le> k" "k \<le> 10"
    by (simp_all add: k_def)
  have "\<not> real_of_int k - x * 10 \<le> spacing_below k / 2" if "k = 10"
    using x(2) that by (simp add: spacing_below_def)
  then have "floor_product x 10 = k - 1" if "k = 10"
    using that by (simp add: floor_product_def Let_def k_def)
  moreover have "floor_product x 10 = k \<or> floor_product x 10 = k - 1"
    by (simp add: floor_product_def Let_def k_def)
  ultimately have "0 \<le> floor_product x 10 \<and> floor_product x 10 \<le> 9"
    using k by (cases "k = 10") auto
  then show ?thesis
    by (simp add: randomPage_def x_def)
qed

lemma randomPage_near_three_tenths:
  "page_random h = Abs_random_value (5404319552844595 / 2 ^ 54) \<Longrightarrow> randomPage h = 4"
  by (simp add: randomPage_def Abs_random_value_inverse floor_product_def spacing_below_def)

lemma randomPage_example: "randomPage example_host = 1"
  by (simp add: randomPage_def example_host_def Abs_random_value_inverse floor_product_def
      spacing_below_def)

text \<open>The query of the example as it is sent, after \<open>encodeURIComponent\<close>.\<close>

lemma encode_example:
  "encodeURIComponent ''stars:500..10500 pushed:>2024-03-02 archived:false is:public'' =
   ''stars%3A500..10500%20pushed%3A%3E2024-03-02%20archived%3Afalse%20is%3Apublic''"
  by (simp add: encodeURIComponent_def unreserved_def percent_def)

subsection \<open>Failures\<close>

lemma hard_failure_result:
  assumes "\<not> cache_hit h w" and "hard_failure h (localStorage w CACHE_KEY) = Some e"
  shows "fetchRepos h w =
    (None, w\<lparr>isLoading := False, requests := requests w @ [url h],
             console := console w @ [Error e]\<rparr>)"
  using assms
  by (cases w)
    (auto simp: fetchRepos_miss awaiting_def try_body_def setIsLoading_def fetch_def
      console_log_def hard_failure_def
      split: fetch_result.splits body.splits option.splits if_splits)

text \<open>
  C6. Every failure of a fetch that the fallback does not take leaves the candidate list
  and the cache as they were, logs the error, clears the loading flag and raises nothing;
  and the loading flag is false after every run in which the request was issued, and
  after every run from the first render.
\<close>

theorem failure_handling:
  "(\<not> cache_hit h w \<and> hard_failure h (localStorage w CACHE_KEY) = Some e \<longrightarrow>
      fetchRepos h w =
        (None, w\<lparr>isLoading := False, requests := requests w @ [url h],
                 console := console w @ [Error e]\<rparr>))
   \<and> (\<not> cache_hit h w \<longrightarrow> isLoading (snd (fetchRepos h w)) = False)
   \<and> isLoading (snd (fetchRepos h (mounted store))) = False"
  using hard_failure_result [of h w e] loading_cleared_miss [of h w]
    loading_cleared_mounted [of h store]
  by blast

theorem failure_handling_witness:
  "fetchRepos example_host (mounted Map.empty) =
     (None, \<lparr>repos = [], isLoading = False, localStorage = Map.empty,
        requests = [url example_host], console = [Error NetworkError], opened = []\<rparr>)"
proof -
  have "hard_failure example_host (localStorage (mounted Map.empty) CACHE_KEY) = Some NetworkError"
    by (simp add: hard_failure_def example_host_def)
  then show ?thesis
    using failure_handling [of example_host "mounted Map.empty" NetworkError Map.empty] no_cache
    by (simp add: mounted_def)
qed

subsection \<open>Activation\<close>

lemma click_keeps_state:
  "repos (click h draw w) = repos w \<and> isLoading (click h draw w) = isLoading w"
  by (simp add: click_def handleClick_def)

text \<open>While the loading flag is set, the candidate list is still the empty one of the first render.\<close>

lemma reachable_loading_empty: "reachable h store w \<Longrightarrow> isLoading w \<Longrightarrow> repos w = []"
proof (induction rule: reachable.induct)
  case first_render
  then show ?case by (simp add: mounted_def)
next
  case fetch_pending
  then show ?case by (simp add: awaiting_def fetch_def setIsLoading_def mounted_def)
next
  case effect_done
  then show ?case by (simp add: loading_cleared_mounted)
next
  case (clicked w draw)
  then show ?case by (simp add: click_keeps_state)
qed

lemma example_adopted:
  "fetchRepos h (mounted (example_store ''1725105300000'')) =
     (None, (mounted (example_store ''1725105300000''))\<lparr>repos := [example_url]\<rparr>)"
  if "JSON_parse h = example_parse" and "now_check h = 1725105600000"
proof -
  have "JSON_parse h (example_stringify [example_url]) = Some [example_url]"
    using that(1) by (simp add: example_parse_def)
  from cache_hit_iff [OF example_cached example_text example_timestamp parseInt_fresh, of h]
  have "cache_hit h (mounted (example_store ''1725105300000''))"
    by (simp add: that(2))
  then show ?thesis
    using \<open>JSON_parse h (example_stringify [example_url]) = Some [example_url]\<close> example_cached
    by (simp add: fetchRepos_hit setRepos_parsed_def setRepos_def)
qed

text \<open>
  The handler itself does not look at the length of the list: called on an empty list it
  hands \<open>undefined\<close> to \<open>window.open\<close>. Only the attribute \<open>disabled\<close> keeps a click away.
\<close>

lemma handleClick_empty:
  "repos w = [] \<Longrightarrow> window_open h \<Longrightarrow>
   handleClick h draw w = w\<lparr>opened := opened w @ [(None, ''_blank'')]\<rparr>"
  by (simp add: handleClick_def pick_def)

text \<open>
  C7 does not hold on every host: with the list \<open>[example_url]\<close> adopted from a fresh cache
  the button is enabled, and yet on a host without \<open>window.open\<close> a click requests no
  navigation.
\<close>

theorem activation_without_window_open:
  "repos (snd (fetchRepos example_headless (mounted (example_store ''1725105300000'')))) =
     [example_url]
   \<and> \<not> disabled (snd (fetchRepos example_headless (mounted (example_store ''1725105300000''))))
   \<and> opened (click example_headless 0
        (snd (fetchRepos example_headless (mounted (example_store ''1725105300000''))))) = []"
proof -
  have "fetchRepos example_headless (mounted (example_store ''1725105300000'')) =
     (None, (mounted (example_store ''1725105300000''))\<lparr>repos := [example_url]\<rparr>)"
    by (rule example_adopted) (simp_all add: example_headless_def example_host_def)
  then show ?thesis
    by (simp add: setRepos_def mounted_def disabled_def click_def handleClick_def
        example_headless_def)
qed

text \<open>
  C7, amended. In every world an event can reach: if the candidate list is non-empty and
  the host has \<open>window.open\<close>, a click selects the entry at the drawn position, an entry of
  the list, and asks \<open>window.open\<close> for it with the target \<open>_blank\<close>; if the list is empty
  (the button is disabled then) or the host has no \<open>window.open\<close>, a click changes nothing
  and requests no navigation.
\<close>

theorem activation:
  assumes "reachable h store w"
  shows "(repos w \<noteq> [] \<and> window_open h \<and> draw < length (repos w) \<longrightarrow>
           repos w ! draw \<in> set (repos w) \<and>
           click h draw w = w\<lparr>opened := opened w @ [(Some (repos w ! draw), ''_blank'')]\<rparr>)
    \<and> (repos w = [] \<or> \<not> window_open h \<longrightarrow> click h draw w = w)"
proof -
  have "\<not> disabled w" if "repos w \<noteq> []"
    using reachable_loading_empty [OF assms] that by (auto simp: disabled_def)
  then show ?thesis
    by (auto simp: click_def handleClick_def pick_def disabled_def)
qed

theorem activation_witness:
  "click example_host 0 (snd (fetchRepos example_host (mounted (example_store ''1725105300000'')))) =
     \<lparr>repos = [example_url], isLoading = False,
      localStorage = example_store ''1725105300000'', requests = [], console = [],
      opened = [(Some example_url, ''_blank'')]\<rparr>
   \<and> click example_host 0 (mounted Map.empty) = mounted Map.empty"
proof -
  have a: "fetchRepos example_host (mounted (example_store ''1725105300000'')) =
     (None, (mounted (example_store ''1725105300000''))\<lparr>repos := [example_url]\<rparr>)"
    by (rule example_adopted) (simp_all add: example_host_def)
  have r: "reachable example_host (example_store ''1725105300000'')
      (snd (fetchRepos example_host (mounted (example_store ''1725105300000''))))"
    by (rule reachable.effect_done)
  have w: "window_open example_host"
    by (simp add: example_host_def)
  have "click example_host 0 ((mounted (example_store ''1725105300000''))\<lparr>repos := [example_url]\<rparr>) =
      ((mounted (example_store ''1725105300000''))\<lparr>repos := [example_url]\<rparr>)
        \<lparr>opened := opened ((mounted (example_store ''1725105300000''))\<lparr>repos := [example_url]\<rparr>)
           @ [(Some example_url, ''_blank'')]\<rparr>"
    using activation [OF r, of 0] w by (simp add: a setRepos_def)
  moreover have "click example_host 0 (mounted Map.empty) = mounted Map.empty"
    using activation [OF reachable.first_render [of example_host Map.empty], of 0]
    by (simp add: mounted_def)
  ultimately show ?thesis
    unfolding a by (simp add: setRepos_def mounted_def)
qed

subsection \<open>Selection\<close>

lemma select_probability_pos:
  assumes "u \<in> set xs"
  shows "0 < select_probability xs u"
proof -
  obtain i where i: "i < length xs" "xs ! i = u"
    using assms by (auto simp: in_set_conv_nth)
  then have "i \<in> set (filter (\<lambda>i. pick xs i = Some u) [0..<length xs])"
    by (simp add: pick_def)
  then have "0 < length (filter (\<lambda>i. pick xs i = Some u) [0..<length xs])"
    by (metis length_pos_if_in_set)
  moreover have "0 < length xs"
    using i by auto
  ultimately show ?thesis
    by (simp add: select_probability_def)
qed

lemma select_count: "length (filter (\<lambda>i. pick xs i = Some u) [0..<length xs]) = count_list xs u"
proof -
  have "filter (\<lambda>i. pick xs i = Some u) [0..<length xs] = filter (\<lambda>i. xs ! i = u) [0..<length xs]"
    by (rule filter_cong) (simp_all add: pick_def)
  moreover have "filter (\<lambda>x. x = u) (map (nth xs) [0..<length xs]) =
      map (nth xs) (filter (\<lambda>i. xs ! i = u) [0..<length xs])"
    by (simp only: filter_map comp_def)
  then have "length (filter (\<lambda>i. xs ! i = u) [0..<length xs]) = length (filter (\<lambda>x. x = u) xs)"
    by (simp only: map_nth length_map)
  moreover have "count_list xs u = length (filter (\<lambda>x. x = u) xs)"
    unfolding count_list_eq_length_filter
    by (rule arg_cong [where f = length], rule filter_cong) auto
  ultimately show ?thesis
    by simp
qed

lemma select_probability_total:
  assumes "xs \<noteq> []"
  shows "(\<Sum>u \<in> set xs. select_probability xs u) = 1"
proof -
  have "(\<Sum>u \<in> set xs. select_probability xs u) =
      (\<Sum>u \<in> set xs. real (count_list xs u)) / real (length xs)"
    by (simp only: select_probability_def select_count sum_divide_distrib)
  also have "(\<Sum>u \<in> set xs. real (count_list xs u)) = real (\<Sum>u \<in> set xs. count_list xs u)"
    by simp
  also have "(\<Sum>u \<in> set xs. count_list xs u) = length xs"
    by (rule sum_count_set) simp_all
  finally show ?thesis using assms by simp
qed

text \<open>
  C8. For a non-empty candidate list, every draw of a position selects an entry of the
  list, and this entry is what \<open>handleClick\<close> hands to \<open>window.open\<close>; under the uniform
  draw every entry of the list is selected with positive probability, and the
  probabilities of the entries add up to one.
\<close>

theorem selection_domain:
  assumes "repos w \<noteq> []"
  shows "(\<forall>draw < length (repos w). \<exists>u \<in> set (repos w).
            pick (repos w) draw = Some u \<and>
            handleClick h draw w =
              (if window_open h then w\<lparr>opened := opened w @ [(Some u, ''_blank'')]\<rparr> else w))
    \<and> (\<forall>u \<in> set (repos w). 0 < select_probability (repos w) u)
    \<and> (\<Sum>u \<in> set (repos w). select_probability (repos w) u) = 1"
  using assms
  by (simp add: select_probability_pos select_probability_total pick_def handleClick_def)

theorem selection_domain_witness:
  "0 < select_probability [''u1'', ''u2''] ''u2''
   \<and> (\<exists>u \<in> set [''u1'', ''u2'']. pick [''u1'', ''u2''] 1 = Some u)
   \<and> select_probability [''u1'', ''u2''] ''u1'' + select_probability [''u1'', ''u2''] ''u2'' = 1"
proof -
  have r: "repos (setRepos [''u1'', ''u2''] (mounted Map.empty)) = [''u1'', ''u2'']"
    by (simp add: setRepos_def)
  have "repos (setRepos [''u1'', ''u2''] (mounted Map.empty)) \<noteq> []"
    by (simp add: r)
  from selection_domain [OF this, of example_host] show ?thesis
    unfolding r by auto
qed

subsection \<open>The cache is written on success only\<close>

lemma fallback_store:
  assumes "fetch_result h = Resolved res" and "status res = 403 \<or> status res = 429"
    and "truthy (localStorage w CACHE_KEY)"
  shows "localStorage (snd (fetchRepos h w)) = localStorage w"
  using assms not_ok_limited [OF assms(2)]
  by (cases "cache_hit h w")
    (simp_all add: fetchRepos_miss fetchRepos_hit awaiting_def try_body_def setIsLoading_def
      fetch_def setRepos_parsed_def setRepos_def console_log_def split: option.splits)

lemma store_changes_only_on_success:
  assumes "localStorage (snd (fetchRepos h w)) \<noteq> localStorage w"
  shows "\<not> cache_hit h w \<and>
    (\<exists>res items. fetch_result h = Resolved res \<and> ok res \<and> payload res = Json (Some items))"
  using assms
  by (cases "cache_hit h w")
    (auto simp: fetchRepos_miss fetchRepos_hit awaiting_def try_body_def setIsLoading_def
      fetch_def setRepos_parsed_def setRepos_def console_log_def
      split: option.splits fetch_result.splits body.splits if_splits)

lemma isCacheValid_later:
  assumes "\<not> isCacheValid h ts" and "now_check h \<le> now_check h'"
  shows "\<not> isCacheValid h' ts"
  using assms by (auto simp: isCacheValid_def split: option.splits)

lemma cache_hit_later:
  assumes "\<not> cache_hit h w" and "now_check h \<le> now_check h'"
    and "localStorage w' = localStorage w"
  shows "\<not> cache_hit h' w'"
  using assms isCacheValid_later [of h "localStorage w CACHE_TIMESTAMP_KEY" h']
  by (auto simp: cache_hit_def)

text \<open>
  C9. On the fallback (a 403 or 429 answer with the list key holding a non-empty text)
  \<open>localStorage\<close> is left as it was, both keys included, so an entry that was stale is
  stale for every later clock; and whenever a run of \<open>fetchRepos\<close> changes \<open>localStorage\<close>,
  the request was issued and answered with a status from 200 to 299 and an \<open>items\<close> array.
\<close>

theorem fallback_writes_nothing:
  "(fetch_result h = Resolved res \<and> (status res = 403 \<or> status res = 429)
      \<and> truthy (localStorage w CACHE_KEY) \<longrightarrow>
      localStorage (snd (fetchRepos h w)) = localStorage w
      \<and> (\<not> cache_hit h w \<and> now_check h \<le> now_check h' \<longrightarrow>
           \<not> cache_hit h' (snd (fetchRepos h w))))
   \<and> (localStorage (snd (fetchRepos h w)) \<noteq> localStorage w \<longrightarrow>
      \<not> cache_hit h w
      \<and> (\<exists>res items. fetch_result h = Resolved res \<and> ok res \<and> payload res = Json (Some items)))"
  using fallback_store [of h res w] store_changes_only_on_success [of h w]
    cache_hit_later [of h w h' "snd (fetchRepos h w)"]
  by blast

theorem fallback_writes_nothing_witness:
  "localStorage (snd (fetchRepos example_limited (mounted (example_store ''1725102000000'')))) =
     example_store ''1725102000000''
   \<and> \<not> cache_hit example_host
        (snd (fetchRepos example_limited (mounted (example_store ''1725102000000''))))
   \<and> \<not> cache_hit example_success (mounted Map.empty)
   \<and> ok \<lparr>status = 200, payload = Json (Some example_items)\<rparr>"
proof -
  have f: "fetch_result example_limited = Resolved \<lparr>status = 429, payload = NotJson\<rparr>"
    by (simp add: example_limited_def)
  have t: "truthy (localStorage (mounted (example_store ''1725102000000'')) CACHE_KEY)"
    using example_cached [of "''1725102000000''"] example_text by (simp add: truthy_def)
  have "cache_hit example_limited (mounted (example_store ''1725102000000'')) =
      (now_check example_limited - 1725102000000 < 1800000)"
    by (rule cache_hit_iff [OF example_cached example_text example_timestamp parseInt_stale])
  then have m: "\<not> cache_hit example_limited (mounted (example_store ''1725102000000''))"
    by (simp add: example_limited_def example_host_def)
  have n: "now_check example_limited \<le> now_check example_host"
    by (simp add: example_limited_def)
  have s: "fetch_result example_success =
      Resolved \<lparr>status = 200, payload = Json (Some example_items)\<rparr>"
    by (simp add: example_success_def)
  have c: "localStorage (snd (fetchRepos example_success (mounted Map.empty))) \<noteq>
      localStorage (mounted Map.empty)"
  proof
    assume "localStorage (snd (fetchRepos example_success (mounted Map.empty))) =
      localStorage (mounted Map.empty)"
    then have "localStorage (snd (fetchRepos example_success (mounted Map.empty))) CACHE_KEY = None"
      by (simp add: mounted_def)
    then show False
      using no_cache [of example_success] s
      by (simp add: fetchRepos_miss awaiting_def try_body_def setIsLoading_def fetch_def
          setRepos_def setItem_def ok_def keys_differ Let_def)
  qed
  show ?thesis
    using fallback_writes_nothing [of example_limited "\<lparr>status = 429, payload = NotJson\<rparr>"
        "mounted (example_store ''1725102000000'')" example_host]
      fallback_writes_nothing [of example_success "\<lparr>status = 429, payload = NotJson\<rparr>"
        "mounted Map.empty" example_host]
      f t m n s c
    by (auto simp: mounted_def)
qed

text \<open>
  C10. When the timestamp key is absent, or holds a text for which \<open>parseInt\<close> yields
  \<open>NaN\<close>, the validity test is false, \<open>fetchRepos\<close> issues the request and raises nothing.
\<close>

theorem unreadable_timestamp:
  assumes "localStorage w CACHE_TIMESTAMP_KEY = None
    \<or> (\<exists>ts. localStorage w CACHE_TIMESTAMP_KEY = Some ts \<and> parseInt ts = None)"
  shows "\<not> isCacheValid h (localStorage w CACHE_TIMESTAMP_KEY)
    \<and> fst (fetchRepos h w) = None
    \<and> requests (snd (fetchRepos h w)) = requests w @ [url h]"
proof -
  have v: "\<not> isCacheValid h (localStorage w CACHE_TIMESTAMP_KEY)"
    using assms by (auto simp: isCacheValid_def)
  then have m: "\<not> cache_hit h w"
    by (simp add: cache_hit_def)
  show ?thesis
    using v requests_miss [OF m] by (simp add: fetchRepos_miss [OF m])
qed

theorem unreadable_timestamp_witness:
  "fst (fetchRepos example_host (mounted (example_store ''soon''))) = None
   \<and> requests (snd (fetchRepos example_host (mounted (example_store ''soon'')))) =
       [url example_host]
   \<and> requests (snd (fetchRepos example_host (mounted [CACHE_KEY \<mapsto> ''[]'']))) =
       [url example_host]"
proof -
  have a: "localStorage (mounted [CACHE_KEY \<mapsto> ''[]'']) CACHE_TIMESTAMP_KEY = None"
    using keys_differ by (simp add: mounted_def)
  have b: "\<exists>ts. localStorage (mounted (example_store ''soon'')) CACHE_TIMESTAMP_KEY = Some ts
      \<and> parseInt ts = None"
    using example_timestamp [of "''soon''"] parseInt_soon by simp
  show ?thesis
    using unreadable_timestamp [of "mounted (example_store ''soon'')" example_host]
      unreadable_timestamp [of "mounted [CACHE_KEY \<mapsto> ''[]'']" example_host] a b
    by (simp add: mounted_def)
qed

end
